theory Spec2Isabelle
  imports Main "HOL-Library.AList"
begin

section \<open>Python values\<close>

text \<open>
  A shallow embedding of \<^verbatim>\<open>app.py\<close>: the status store (\<^verbatim>\<open>DataManager\<close>), the lead and
  contact formatters (\<^verbatim>\<open>AmoCRMHandler\<close>) and the lead dispatcher (\<^verbatim>\<open>process_leads\<close>).

  A Python \<^verbatim>\<open>str\<close> is a list of Unicode code points. ASCII literals of the source are
  written \<open>asc ''...''\<close>; the Russian literals and the emoji are spelled out as code points.
\<close>

type_synonym ustr = "nat list"

definition asc :: "string \<Rightarrow> ustr" where
  "asc s = map of_char s"

text \<open>
  The values \<^verbatim>\<open>request.json()\<close> and \<^verbatim>\<open>json.load\<close> produce. A \<^verbatim>\<open>dict\<close> is an association
  list in insertion order (keys of a Python dict are distinct; \<open>AList.update\<close> overwrites
  in place or appends, as item assignment does). JSON numbers with a fraction or an
  exponent (Python floats) have no constructor here.
\<close>

datatype json =
    JNull
  | JBool bool
  | JInt int
  | JStr ustr
  | JList "json list"
  | JObj "(ustr \<times> json) list"

datatype error = TypeError | AttributeError | OSError | JSONDecodeError | HTTPError

text \<open>\<^verbatim>\<open>str.strip()\<close>: the code points for which \<^verbatim>\<open>str.isspace\<close> holds are removed at both ends.\<close>

definition py_isspace :: "nat \<Rightarrow> bool" where
  "py_isspace c =
     ((9 \<le> c \<and> c \<le> 13) \<or> (28 \<le> c \<and> c \<le> 32) \<or> c = 0x85 \<or> c = 0xA0 \<or> c = 0x1680
      \<or> (0x2000 \<le> c \<and> c \<le> 0x200A) \<or> c = 0x2028 \<or> c = 0x2029 \<or> c = 0x202F
      \<or> c = 0x205F \<or> c = 0x3000)"

definition py_strip :: "ustr \<Rightarrow> ustr" where
  "py_strip s = rev (dropWhile py_isspace (rev (dropWhile py_isspace s)))"

text \<open>\<^verbatim>\<open>str(n)\<close> for an integer: decimal digits, a minus sign for a negative number.\<close>

fun digits :: "nat \<Rightarrow> ustr" where
  "digits n = (if n < 10 then [48 + n] else digits (n div 10) @ [48 + n mod 10])"

declare digits.simps [simp del]

definition str_int :: "int \<Rightarrow> ustr" where
  "str_int i = (if i < 0 then asc ''-'' @ digits (nat (- i)) else digits (nat i))"

text \<open>
  \<^verbatim>\<open>repr\<close> of a string, which \<^verbatim>\<open>str\<close> of a list or dict applies to the strings inside:
  single quotes unless the string has a single and no double quote; the quote, the
  backslash, tab, newline and carriage return escaped; other control characters as
  \<^verbatim>\<open>\xhh\<close>. Beyond ASCII, Python escapes what its Unicode database calls not printable;
  the model knows this up to U+00FF and takes the code points above as printable.
\<close>

definition hex_digit :: "nat \<Rightarrow> nat" where
  "hex_digit d = (if d < 10 then 48 + d else 87 + d)"

fun hex_pad :: "nat \<Rightarrow> nat \<Rightarrow> ustr" where
  "hex_pad 0 n = []"
| "hex_pad (Suc w) n = hex_pad w (n div 16) @ [hex_digit (n mod 16)]"

definition py_isprintable :: "nat \<Rightarrow> bool" where
  "py_isprintable c = (32 \<le> c \<and> c \<noteq> 127 \<and> \<not> (128 \<le> c \<and> c \<le> 160) \<and> c \<noteq> 173)"

definition repr_char :: "nat \<Rightarrow> nat \<Rightarrow> ustr" where
  "repr_char quote c =
     (if c = quote \<or> c = 92 then [92, c]
      else if c = 9 then [92, 116]
      else if c = 10 then [92, 110]
      else if c = 13 then [92, 114]
      else if py_isprintable c then [c]
      else if c < 256 then [92, 120] @ hex_pad 2 c
      else if c < 65536 then [92, 117] @ hex_pad 4 c
      else [92, 85] @ hex_pad 8 c)"

definition repr_str :: "ustr \<Rightarrow> ustr" where
  "repr_str s =
     (let quote = (if 39 \<in> set s \<and> 34 \<notin> set s then 34 else 39)
      in [quote] @ concat (map (repr_char quote) s) @ [quote])"

fun join_str :: "ustr \<Rightarrow> ustr list \<Rightarrow> ustr" where
  "join_str sep [] = []"
| "join_str sep [x] = x"
| "join_str sep (x # y # ys) = x @ sep @ join_str sep (y # ys)"

fun py_repr :: "json \<Rightarrow> ustr" where
  "py_repr JNull = asc ''None''"
| "py_repr (JBool b) = (if b then asc ''True'' else asc ''False'')"
| "py_repr (JInt i) = str_int i"
| "py_repr (JStr s) = repr_str s"
| "py_repr (JList xs) = asc ''['' @ join_str (asc '', '') (map py_repr xs) @ asc '']''"
| "py_repr (JObj kvs) =
     asc ''{'' @ join_str (asc '', '') (map (\<lambda>kv. repr_str (fst kv) @ asc '': '' @ py_repr (snd kv)) kvs)
       @ asc ''}''"

text \<open>\<^verbatim>\<open>str(x)\<close>, which is also what an f-string field \<^verbatim>\<open>{x}\<close> inserts: a string is itself.\<close>

definition py_str :: "json \<Rightarrow> ustr" where
  "py_str v = (case v of JStr s \<Rightarrow> s | _ \<Rightarrow> py_repr v)"

text \<open>Truth value testing (\<^verbatim>\<open>if x:\<close>).\<close>

definition py_truthy :: "json \<Rightarrow> bool" where
  "py_truthy v =
     (case v of
        JNull \<Rightarrow> False
      | JBool b \<Rightarrow> b
      | JInt i \<Rightarrow> i \<noteq> 0
      | JStr s \<Rightarrow> s \<noteq> []
      | JList xs \<Rightarrow> xs \<noteq> []
      | JObj kvs \<Rightarrow> kvs \<noteq> [])"

text \<open>\<^verbatim>\<open>k in d\<close> and \<^verbatim>\<open>d.get(k, default)\<close> on a dict.\<close>

definition dict_has :: "(ustr \<times> json) list \<Rightarrow> ustr \<Rightarrow> bool" where
  "dict_has d k = (map_of d k \<noteq> None)"

definition dict_get :: "(ustr \<times> json) list \<Rightarrow> ustr \<Rightarrow> json \<Rightarrow> json" where
  "dict_get d k dflt = (case map_of d k of None \<Rightarrow> dflt | Some v \<Rightarrow> v)"

text \<open>\<^verbatim>\<open>x.get(k, default)\<close> on any value: only a dict has the method.\<close>

definition py_get :: "json \<Rightarrow> ustr \<Rightarrow> json \<Rightarrow> error + json" where
  "py_get x k dflt = (case x of JObj d \<Rightarrow> Inr (dict_get d k dflt) | _ \<Rightarrow> Inl AttributeError)"


section \<open>The files of the status store\<close>

text \<open>
  The data directory is a map from path to file. A file that exists holds a JSON document
  (represented by the value \<^verbatim>\<open>json.load\<close> returns for it), or content \<^verbatim>\<open>json.load\<close> rejects,
  or cannot be opened for reading. What happens when a file is written is the
  environment's choice, passed in with each write: it succeeds, or \<^verbatim>\<open>open(.., "w")\<close> raises
  and the file stays as it was, or \<^verbatim>\<open>json.dump\<close> raises after the file was truncated.
\<close>

datatype file_state = Doc json | Corrupt | Unreadable

type_synonym files = "ustr \<Rightarrow> file_state option"

datatype write_outcome = WriteOk | OpenFails | DumpFails

definition DATA_DIR :: ustr where
  "DATA_DIR = asc ''data''"

text \<open>\<^verbatim>\<open>os.path.join\<close> of two components (POSIX).\<close>

definition os_path_join :: "ustr \<Rightarrow> ustr \<Rightarrow> ustr" where
  "os_path_join a b =
     (if take 1 b = asc ''/'' then b
      else if a = [] \<or> last a = 47 then a @ b
      else a @ asc ''/'' @ b)"

definition get_status_file_path :: "ustr \<Rightarrow> ustr" where
  "get_status_file_path scope_id =
     os_path_join DATA_DIR (asc ''lead_statuses_'' @ scope_id @ asc ''.json'')"

definition os_path_exists :: "files \<Rightarrow> ustr \<Rightarrow> bool" where
  "os_path_exists fs p = (fs p \<noteq> None)"

text \<open>\<^verbatim>\<open>with open(file_path, "r", encoding="utf-8") as file: return json.load(file)\<close>\<close>

definition json_load_file :: "files \<Rightarrow> ustr \<Rightarrow> error + json" where
  "json_load_file fs p =
     (case fs p of
        None \<Rightarrow> Inl OSError
      | Some Unreadable \<Rightarrow> Inl OSError
      | Some Corrupt \<Rightarrow> Inl JSONDecodeError
      | Some (Doc v) \<Rightarrow> Inr v)"

text \<open>\<^verbatim>\<open>DataManager.load_lead_statuses\<close>: the \<^verbatim>\<open>except Exception\<close> branch returns \<^verbatim>\<open>{}\<close>.\<close>

definition load_lead_statuses :: "files \<Rightarrow> ustr \<Rightarrow> error + json" where
  "load_lead_statuses fs scope_id =
     (let file_path = get_status_file_path scope_id in
      case (if os_path_exists fs file_path then json_load_file fs file_path
            else Inr (JObj [])) of
        Inr v \<Rightarrow> Inr v
      | Inl e \<Rightarrow> Inr (JObj []))"

text \<open>\<^verbatim>\<open>with open(file_path, "w", encoding="utf-8") as file: json.dump(statuses, file, ..)\<close>\<close>

definition json_dump_file :: "files \<Rightarrow> ustr \<Rightarrow> json \<Rightarrow> write_outcome \<Rightarrow> (error + unit) \<times> files" where
  "json_dump_file fs p v w =
     (case w of
        OpenFails \<Rightarrow> (Inl OSError, fs)
      | DumpFails \<Rightarrow> (Inl OSError, fs(p \<mapsto> Corrupt))
      | WriteOk \<Rightarrow> (Inr (), fs(p \<mapsto> Doc v)))"

text \<open>\<^verbatim>\<open>DataManager.save_lead_statuses\<close>: the \<^verbatim>\<open>except Exception\<close> branch only logs.\<close>

definition save_lead_statuses :: "files \<Rightarrow> ustr \<Rightarrow> json \<Rightarrow> write_outcome \<Rightarrow> (error + unit) \<times> files" where
  "save_lead_statuses fs scope_id statuses w =
     (let file_path = get_status_file_path scope_id in
      case json_dump_file fs file_path statuses w of
        (Inr u, fs') \<Rightarrow> (Inr (), fs')
      | (Inl e, fs') \<Rightarrow> (Inr (), fs'))"

text \<open>
  Lines 66 to 73 of \<^verbatim>\<open>update_lead_status\<close>, the change to the loaded mapping. \<open>now\<close> is
  \<^verbatim>\<open>datetime.now().isoformat()\<close>, read once on either branch. When \<^verbatim>\<open>statuses\<close> is not a
  dict, or the record found under the key is not one, the item assignment raises
  \<^verbatim>\<open>TypeError\<close> (for a number, \<^verbatim>\<open>None\<close> or a boolean the test \<^verbatim>\<open>not in\<close> already does).
\<close>

definition set_status :: "json \<Rightarrow> ustr \<Rightarrow> json \<Rightarrow> ustr \<Rightarrow> error + json" where
  "set_status statuses status_id_str status_name now =
     (case statuses of
        JObj kvs \<Rightarrow>
          (if \<not> dict_has kvs status_id_str then
             Inr (JObj (AList.update status_id_str
                    (JObj [(asc ''name'', status_name), (asc ''first_seen'', JStr now)]) kvs))
           else
             (case dict_get kvs status_id_str JNull of
                JObj r \<Rightarrow>
                  Inr (JObj (AList.update status_id_str
                         (JObj (AList.update (asc ''last_updated'') (JStr now)
                                  (AList.update (asc ''name'') status_name r))) kvs))
              | _ \<Rightarrow> Inl TypeError))
      | _ \<Rightarrow> Inl TypeError)"

text \<open>\<^verbatim>\<open>DataManager.update_lead_status\<close>: load, change, save, return the changed mapping.\<close>

definition update_lead_status ::
  "files \<Rightarrow> ustr \<Rightarrow> json \<Rightarrow> json \<Rightarrow> ustr \<Rightarrow> write_outcome \<Rightarrow> (error + json) \<times> files" where
  "update_lead_status fs scope_id status_id status_name now w =
     (case load_lead_statuses fs scope_id of
        Inl e \<Rightarrow> (Inl e, fs)
      | Inr statuses \<Rightarrow>
          (case set_status statuses (py_str status_id) status_name now of
             Inl e \<Rightarrow> (Inl e, fs)
           | Inr statuses' \<Rightarrow>
               (case save_lead_statuses fs scope_id statuses' w of
                  (Inl e, fs') \<Rightarrow> (Inl e, fs')
                | (Inr u, fs') \<Rightarrow> (Inr statuses', fs'))))"

text \<open>The prefix of the fallback name, \<^verbatim>\<open>"Status "\<close> in Russian (Cyrillic letters and a space).\<close>

definition status_fallback_prefix :: ustr where
  "status_fallback_prefix = [0x421, 0x442, 0x430, 0x442, 0x443, 0x441, 0x20]"

text \<open>\<^verbatim>\<open>DataManager.get_status_name\<close>\<close>

definition get_status_name :: "files \<Rightarrow> ustr \<Rightarrow> json \<Rightarrow> error + json" where
  "get_status_name fs scope_id status_id =
     (case load_lead_statuses fs scope_id of
        Inl e \<Rightarrow> Inl e
      | Inr statuses \<Rightarrow>
          (case py_get statuses (py_str status_id) (JObj []) of
             Inl e \<Rightarrow> Inl e
           | Inr r \<Rightarrow>
               py_get r (asc ''name'') (JStr (status_fallback_prefix @ py_str status_id))))"

section \<open>Formatting leads and contacts\<close>

text \<open>
  The literals of \<^verbatim>\<open>AmoCRMHandler\<close>, as code points. In source order: the memo, the
  arrows, the party popper and the information sign (with its variation selector); the
  four titles ("new deal created", "deal updated", "deal closed successfully", "deal
  information"); the labels "Name: ", "Budget: ", " rub.", "Responsible: ", "Status: "
  and the default "Untitled", all in Russian.
\<close>

definition emoji_new :: ustr where "emoji_new = [0x1F4DD]"
definition emoji_update :: ustr where "emoji_update = [0x1F504]"
definition emoji_success :: ustr where "emoji_success = [0x1F389]"
definition emoji_info :: ustr where "emoji_info = [0x2139, 0xFE0F]"

definition title_new :: ustr where
  "title_new = [0x421, 0x43E, 0x437, 0x434, 0x430, 0x43D, 0x430, 0x20, 0x43D, 0x43E, 0x432,
     0x430, 0x44F, 0x20, 0x441, 0x434, 0x435, 0x43B, 0x43A, 0x430]"

definition title_update :: ustr where
  "title_update = [0x41E, 0x431, 0x43D, 0x43E, 0x432, 0x43B, 0x435, 0x43D, 0x430, 0x20, 0x441,
     0x434, 0x435, 0x43B, 0x43A, 0x430]"

definition title_success :: ustr where
  "title_success = [0x423, 0x441, 0x43F, 0x435, 0x448, 0x43D, 0x43E, 0x20, 0x440, 0x435, 0x430,
     0x43B, 0x438, 0x437, 0x43E, 0x432, 0x430, 0x43D, 0x43D, 0x430, 0x44F, 0x20, 0x441, 0x434,
     0x435, 0x43B, 0x43A, 0x430]"

definition title_info :: ustr where
  "title_info = [0x418, 0x43D, 0x444, 0x43E, 0x440, 0x43C, 0x430, 0x446, 0x438, 0x44F, 0x20,
     0x43E, 0x20, 0x441, 0x434, 0x435, 0x43B, 0x43A, 0x435]"

definition label_name :: ustr where
  "label_name = [0x41D, 0x430, 0x437, 0x432, 0x430, 0x43D, 0x438, 0x435, 0x3A, 0x20]"

definition default_name :: ustr where
  "default_name = [0x411, 0x435, 0x437, 0x20, 0x43D, 0x430, 0x437, 0x432, 0x430, 0x43D, 0x438, 0x44F]"

definition label_budget :: ustr where
  "label_budget = [0x411, 0x44E, 0x434, 0x436, 0x435, 0x442, 0x3A, 0x20]"

definition suffix_rub :: ustr where
  "suffix_rub = [0x20, 0x440, 0x443, 0x431, 0x2E]"

definition label_responsible :: ustr where
  "label_responsible = [0x41E, 0x442, 0x432, 0x435, 0x442, 0x441, 0x442, 0x432, 0x435, 0x43D,
     0x43D, 0x44B, 0x439, 0x3A, 0x20]"

definition default_responsible :: ustr where
  "default_responsible = [0x41D, 0x435, 0x20, 0x43D, 0x430, 0x437, 0x43D, 0x430, 0x447, 0x435, 0x43D]"

definition label_status :: ustr where
  "label_status = [0x421, 0x442, 0x430, 0x442, 0x443, 0x441, 0x3A, 0x20]"

text \<open>Lines 110 to 121 of \<^verbatim>\<open>format_lead_message\<close>: emoji and title by event type.\<close>

definition lead_title :: "ustr \<Rightarrow> ustr \<times> ustr" where
  "lead_title event_type =
     (if event_type = asc ''new'' then (emoji_new, title_new)
      else if event_type = asc ''update'' then (emoji_update, title_update)
      else if event_type = asc ''success'' then (emoji_success, title_success)
      else (emoji_info, title_info))"

text \<open>Lines 123 to 132: the title line, the name, the budget and the responsible user.\<close>

definition lead_head :: "(ustr \<times> json) list \<Rightarrow> ustr \<Rightarrow> ustr" where
  "lead_head lead event_type =
     (let (emoji, title) = lead_title event_type;
          message = emoji @ asc '' <b>'' @ title @ asc ''</b>'' @ [10];
          message = message @ label_name
                      @ py_str (dict_get lead (asc ''name'') (JStr default_name)) @ [10];
          message = (if dict_has lead (asc ''price'')
                     then message @ label_budget
                            @ py_str (dict_get lead (asc ''price'') (JStr (asc ''0'')))
                            @ suffix_rub @ [10]
                     else message);
          message = (if dict_has lead (asc ''responsible_user_name'')
                     then message @ label_responsible
                            @ py_str (dict_get lead (asc ''responsible_user_name'')
                                        (JStr default_responsible)) @ [10]
                     else message)
      in message)"

text \<open>
  Lines 136 to 143: the status name of a lead with a truthy status id. A name the lead
  carries is written to the store first; a missing or falsy name is looked up.
\<close>

definition lead_status_name ::
  "files \<Rightarrow> (ustr \<times> json) list \<Rightarrow> ustr \<Rightarrow> json \<Rightarrow> ustr \<Rightarrow> write_outcome
     \<Rightarrow> (error + json) \<times> files" where
  "lead_status_name fs lead scope_id status_id now w =
     (case (if dict_has lead (asc ''status_name'') then
              (let status_name = dict_get lead (asc ''status_name'') JNull in
               case update_lead_status fs scope_id status_id status_name now w of
                 (Inl e, fs') \<Rightarrow> (Inl e, fs')
               | (Inr m, fs') \<Rightarrow> (Inr status_name, fs'))
            else (Inr JNull, fs)) of
        (Inl e, fs') \<Rightarrow> (Inl e, fs')
      | (Inr status_name, fs') \<Rightarrow>
          (if \<not> py_truthy status_name then
             (case get_status_name fs' scope_id status_id of
                Inl e \<Rightarrow> (Inl e, fs')
              | Inr n \<Rightarrow> (Inr n, fs'))
           else (Inr status_name, fs')))"

text \<open>\<^verbatim>\<open>AmoCRMHandler.format_lead_message\<close>\<close>

definition format_lead_message ::
  "files \<Rightarrow> (ustr \<times> json) list \<Rightarrow> ustr \<Rightarrow> ustr \<Rightarrow> ustr \<Rightarrow> write_outcome
     \<Rightarrow> (error + ustr) \<times> files" where
  "format_lead_message fs lead event_type scope_id now w =
     (let message = lead_head lead event_type;
          status_id = dict_get lead (asc ''status_id'') JNull
      in if py_truthy status_id then
           (case lead_status_name fs lead scope_id status_id now w of
              (Inl e, fs') \<Rightarrow> (Inl e, fs')
            | (Inr status_name, fs') \<Rightarrow>
                (Inr (py_strip (message @ label_status @ py_str status_name @ [10])), fs'))
         else (Inr (py_strip message), fs))"






definition label_phone :: ustr where
  "label_phone = [0x422, 0x435, 0x43B, 0x435, 0x444, 0x43E, 0x43D, 0x3A, 0x20]"

definition label_email :: ustr where
  "label_email = asc ''Email: ''"






section \<open>The lead dispatcher\<close>

text \<open>
  What the environment does while one lead is processed: the time \<^verbatim>\<open>datetime.now()\<close>
  shows, the outcome of the store's write, and whether the request to the chat service
  goes through (\<^verbatim>\<open>httpx\<close> raises otherwise). The state is the data directory and the
  list of messages sent, each with its chat.
\<close>

record step_env =
  env_now :: ustr
  env_write :: write_outcome
  env_send_ok :: bool

type_synonym world = "files \<times> (ustr \<times> ustr) list"

text \<open>\<^verbatim>\<open>TelegramMessage.send_message\<close>\<close>

definition send_message :: "(ustr \<times> ustr) list \<Rightarrow> ustr \<Rightarrow> ustr \<Rightarrow> bool
    \<Rightarrow> (error + unit) \<times> (ustr \<times> ustr) list" where
  "send_message sent chat_id text_body ok =
     (if ok then (Inr (), sent @ [(chat_id, text_body)]) else (Inl HTTPError, sent))"

text \<open>
  The two statements every branch of \<^verbatim>\<open>process_leads\<close> consists of:
  \<^verbatim>\<open>message = AmoCRMHandler.format_lead_message(lead, kind, scope_id)\<close> and
  \<^verbatim>\<open>await TelegramMessage.send_message(chat_id, message)\<close>.
\<close>

definition format_and_send ::
  "world \<Rightarrow> (ustr \<times> json) list \<Rightarrow> ustr \<Rightarrow> ustr \<Rightarrow> ustr \<Rightarrow> step_env \<Rightarrow> (error + unit) \<times> world" where
  "format_and_send st lead event_type chat_id scope_id env =
     (case format_lead_message (fst st) lead event_type scope_id (env_now env) (env_write env) of
        (Inl e, fs') \<Rightarrow> (Inl e, (fs', snd st))
      | (Inr message, fs') \<Rightarrow>
          (case send_message (snd st) chat_id message (env_send_ok env) of
             (Inl e, sent') \<Rightarrow> (Inl e, (fs', sent'))
           | (Inr u, sent') \<Rightarrow> (Inr (), (fs', sent'))))"

definition successful_status_ids :: "ustr list" where
  "successful_status_ids = [asc ''142'', asc ''143'']"

text \<open>
  The body of the loop of \<^verbatim>\<open>process_leads\<close> (lines 247 to 269). An element that is not a
  dict raises: a list or a string passes \<^verbatim>\<open>"add" in lead\<close> and fails at \<^verbatim>\<open>lead.get\<close>, anything
  else fails at \<^verbatim>\<open>in\<close>.
\<close>

definition process_lead :: "world \<Rightarrow> json \<Rightarrow> ustr \<Rightarrow> ustr \<Rightarrow> step_env \<Rightarrow> (error + unit) \<times> world" where
  "process_lead st lead_json chat_id scope_id env =
     (case lead_json of
        JObj lead \<Rightarrow>
          (if dict_has lead (asc ''add'') then
             format_and_send st lead (asc ''new'') chat_id scope_id env
           else if py_truthy (dict_get lead (asc ''status_id'') JNull) then
             (if py_str (dict_get lead (asc ''status_id'') JNull) \<in> set successful_status_ids
              then format_and_send st lead (asc ''success'') chat_id scope_id env
              else format_and_send st lead (asc ''update'') chat_id scope_id env)
           else if dict_has lead (asc ''update'') then
             format_and_send st lead (asc ''update'') chat_id scope_id env
           else (Inr (), st))
      | JList xs \<Rightarrow> (Inl AttributeError, st)
      | JStr s \<Rightarrow> (Inl AttributeError, st)
      | _ \<Rightarrow> (Inl TypeError, st))"

text \<open>
  \<^verbatim>\<open>process_leads\<close>: the loop, which an exception leaves. \<open>env i\<close> is what the environment
  does during the \<open>i\<close>-th lead still to come.
\<close>

fun process_leads :: "world \<Rightarrow> json list \<Rightarrow> ustr \<Rightarrow> ustr \<Rightarrow> (nat \<Rightarrow> step_env) \<Rightarrow> (error + unit) \<times> world" where
  "process_leads st [] chat_id scope_id env = (Inr (), st)"
| "process_leads st (lead # leads) chat_id scope_id env =
     (case process_lead st lead chat_id scope_id (env 0) of
        (Inl e, st') \<Rightarrow> (Inl e, st')
      | (Inr u, st') \<Rightarrow> process_leads st' leads chat_id scope_id (\<lambda>i. env (Suc i)))"

section \<open>Notions the statements use\<close>

text \<open>
  A store is well formed when what \<open>load_lead_statuses\<close> returns for it is a dict whose
  values are dicts: the shape \<open>update_lead_status\<close> writes, starting from no file.
\<close>

definition is_dict :: "json \<Rightarrow> bool" where
  "is_dict v = (case v of JObj d \<Rightarrow> True | _ \<Rightarrow> False)"

definition records_ok :: "json \<Rightarrow> bool" where
  "records_ok v = (case v of JObj kvs \<Rightarrow> list_all (\<lambda>kv. is_dict (snd kv)) kvs | _ \<Rightarrow> False)"

definition store_ok :: "files \<Rightarrow> ustr \<Rightarrow> bool" where
  "store_ok fs scope_id =
     (case load_lead_statuses fs scope_id of Inr v \<Rightarrow> records_ok v | Inl e \<Rightarrow> False)"

text \<open>
  The event kind of a lead in the words of the specification: an "add" marker gives new;
  else a truthy status id gives success when its string is one of the successful status
  ids and update otherwise; else an "update" marker gives update; else there is no message.
\<close>

datatype lead_kind = KindNew | KindSuccess | KindUpdate

definition spec_lead_kind :: "(ustr \<times> json) list \<Rightarrow> lead_kind option" where
  "spec_lead_kind lead =
     (if dict_has lead (asc ''add'') then Some KindNew
      else if py_truthy (dict_get lead (asc ''status_id'') JNull) then
        (if py_str (dict_get lead (asc ''status_id'') JNull) \<in> {asc ''142'', asc ''143''}
         then Some KindSuccess else Some KindUpdate)
      else if dict_has lead (asc ''update'') then Some KindUpdate
      else None)"

fun kind_name :: "lead_kind \<Rightarrow> ustr" where
  "kind_name KindNew = asc ''new''"
| "kind_name KindSuccess = asc ''success''"
| "kind_name KindUpdate = asc ''update''"

fun kind_emoji :: "lead_kind \<Rightarrow> ustr" where
  "kind_emoji KindNew = emoji_new"
| "kind_emoji KindSuccess = emoji_success"
| "kind_emoji KindUpdate = emoji_update"


definition is_phone_line :: "ustr \<Rightarrow> bool" where
  "is_phone_line l = (take (length label_phone) l = label_phone)"

definition is_email_line :: "ustr \<Rightarrow> bool" where
  "is_email_line l = (take (length label_email) l = label_email)"

text \<open>
  Inputs the statements name. An empty data directory, two times of day, and two
  environments for one lead: in the first all goes well, in the second \<^verbatim>\<open>open\<close> fails when
  the store is written. The lead of the specification's example and the message it gives.
  A contact with one field coded \<^verbatim>\<open>PHONE\<close> (two values) and one coded \<^verbatim>\<open>EMAIL\<close>, and a
  contact with two fields coded \<^verbatim>\<open>PHONE\<close>.
\<close>

definition no_files :: files where
  "no_files = Map.empty"

definition time_a :: ustr where
  "time_a = asc ''2024-05-01T10:00:00''"

definition time_b :: ustr where
  "time_b = asc ''2024-05-01T10:00:09''"

definition env_ok :: step_env where
  "env_ok = \<lparr>env_now = time_a, env_write = WriteOk, env_send_ok = True\<rparr>"

definition env_open_fails :: step_env where
  "env_open_fails = \<lparr>env_now = time_a, env_write = OpenFails, env_send_ok = True\<rparr>"

definition won_lead :: "(ustr \<times> json) list" where
  "won_lead = [(asc ''status_id'', JInt 142), (asc ''status_name'', JStr (asc ''Won''))]"

definition won_message :: ustr where
  "won_message = emoji_success @ asc '' <b>'' @ title_success @ asc ''</b>'' @ [10]
     @ label_name @ default_name @ [10] @ label_status @ asc ''Won''"




text \<open>
  Two data directories for scope 42: one whose store holds a record for status 7, and
  one whose store holds a string where the record of status 7 should be.
\<close>

definition old_store :: files where
  "old_store =
     no_files(get_status_file_path (asc ''42'') \<mapsto>
       Doc (JObj [(asc ''7'', JObj [(asc ''name'', JStr (asc ''Won'')),
                                    (asc ''first_seen'', JStr time_a)])]))"

definition bad_store :: files where
  "bad_store =
     no_files(get_status_file_path (asc ''42'') \<mapsto> Doc (JObj [(asc ''7'', JStr (asc ''Won''))]))"

section \<open>Auxiliary facts\<close>

lemma asc_simps: "asc [] = []" "asc (c # cs) = of_char c # asc cs"
  by (simp_all add: asc_def)

lemma asc_eq_iff [simp]: "asc a = asc b \<longleftrightarrow> a = b"
proof -
  have "inj (of_char :: char \<Rightarrow> nat)"
    by (rule injI) simp
  then show ?thesis
    by (simp add: asc_def inj_map_eq_map)
qed

lemma get_status_file_path_eq:
  "get_status_file_path scope_id = asc ''data/lead_statuses_'' @ scope_id @ asc ''.json''"
  by (simp add: get_status_file_path_def os_path_join_def DATA_DIR_def asc_simps)

lemma get_status_file_path_inj [simp]:
  "get_status_file_path a = get_status_file_path b \<longleftrightarrow> a = b"
  by (simp add: get_status_file_path_eq)

lemma load_cases:
  "load_lead_statuses fs scope_id =
     (case fs (get_status_file_path scope_id) of Some (Doc v) \<Rightarrow> Inr v | _ \<Rightarrow> Inr (JObj []))"
  by (simp add: load_lead_statuses_def Let_def os_path_exists_def json_load_file_def
           split: option.splits file_state.splits)

lemma save_files:
  "snd (save_lead_statuses fs scope_id m w) =
     (case w of WriteOk \<Rightarrow> fs(get_status_file_path scope_id \<mapsto> Doc m)
      | OpenFails \<Rightarrow> fs
      | DumpFails \<Rightarrow> fs(get_status_file_path scope_id \<mapsto> Corrupt))"
  by (simp add: save_lead_statuses_def json_dump_file_def Let_def split: write_outcome.splits)


lemma update_cases:
  "update_lead_status fs scope_id status_id status_name now w =
     (case load_lead_statuses fs scope_id of
        Inl e \<Rightarrow> (Inl e, fs)
      | Inr statuses \<Rightarrow>
          (case set_status statuses (py_str status_id) status_name now of
             Inl e \<Rightarrow> (Inl e, fs)
           | Inr m \<Rightarrow> (Inr m, snd (save_lead_statuses fs scope_id m w))))"
  by (simp add: update_lead_status_def save_lead_statuses_def json_dump_file_def Let_def
           split: sum.splits write_outcome.splits)

lemma update_ok_load:
  "fst (update_lead_status fs s i n now WriteOk) = Inr m \<Longrightarrow>
   load_lead_statuses (snd (update_lead_status fs s i n now WriteOk)) s = Inr m"
  by (auto simp: update_cases save_files load_cases split: sum.splits)

lemma update_other_file:
  "a \<noteq> b \<Longrightarrow>
   snd (update_lead_status fs a status_id status_name now w) (get_status_file_path b)
     = fs (get_status_file_path b)"
  by (simp add: update_cases save_files split: sum.splits write_outcome.splits)

lemma set_status_new:
  "\<not> dict_has kvs k \<Longrightarrow>
   set_status (JObj kvs) k n now =
     Inr (JObj (AList.update k (JObj [(asc ''name'', n), (asc ''first_seen'', JStr now)]) kvs))"
  by (simp add: set_status_def)

lemma set_status_old:
  "map_of kvs k = Some (JObj r) \<Longrightarrow>
   set_status (JObj kvs) k n now =
     Inr (JObj (AList.update k
        (JObj (AList.update (asc ''last_updated'') (JStr now) (AList.update (asc ''name'') n r))) kvs))"
  by (simp add: set_status_def dict_has_def dict_get_def)

lemma is_dict_iff: "is_dict v \<longleftrightarrow> (\<exists>d. v = JObj d)"
  by (cases v) (simp_all add: is_dict_def)

lemma records_ok_JObj: "records_ok (JObj kvs) \<longleftrightarrow> list_all (\<lambda>kv. is_dict (snd kv)) kvs"
  by (simp add: records_ok_def)

lemma records_ok_lookup:
  "records_ok (JObj kvs) \<Longrightarrow> map_of kvs k = Some v \<Longrightarrow> \<exists>r. v = JObj r"
  by (induction kvs) (auto simp: records_ok_JObj is_dict_iff split: if_splits)

lemma records_ok_update:
  "records_ok (JObj kvs) \<Longrightarrow> records_ok (JObj (AList.update k (JObj r) kvs))"
  by (induction kvs) (auto simp: records_ok_JObj is_dict_iff)

lemma set_status_ok:
  assumes "records_ok m"
  shows "\<exists>kvs' r. set_status m k n now = Inr (JObj kvs') \<and> map_of kvs' k = Some (JObj r)
           \<and> map_of r (asc ''name'') = Some n \<and> records_ok (JObj kvs')"
proof -
  from assms obtain kvs where m: "m = JObj kvs"
    by (cases m) (simp_all add: records_ok_def)
  show ?thesis
  proof (cases "map_of kvs k")
    case None
    let ?new = "JObj [(asc ''name'', n), (asc ''first_seen'', JStr now)]"
    from None have "set_status m k n now = Inr (JObj (AList.update k ?new kvs))"
      using m by (simp add: set_status_new dict_has_def)
    moreover have "records_ok (JObj (AList.update k ?new kvs))"
      using assms m by (simp add: records_ok_update)
    ultimately show ?thesis by (simp add: update_conv')
  next
    case (Some v)
    with assms m obtain r where v: "v = JObj r" using records_ok_lookup by blast
    let ?r = "AList.update (asc ''last_updated'') (JStr now) (AList.update (asc ''name'') n r)"
    have "set_status m k n now = Inr (JObj (AList.update k (JObj ?r) kvs))"
      using m Some v by (simp add: set_status_old)
    moreover have "records_ok (JObj (AList.update k (JObj ?r) kvs))"
      using assms m by (simp add: records_ok_update)
    moreover have "map_of ?r (asc ''name'') = Some n"
      by (simp add: update_conv')
    ultimately show ?thesis by (simp add: update_conv')
  qed
qed

text \<open>
  Well-formedness is an invariant: it holds of the empty data directory and every
  \<open>update_lead_status\<close> keeps it, for every scope, whatever the write does.
\<close>

lemma store_ok_empty: "store_ok Map.empty s"
  by (simp add: store_ok_def load_cases records_ok_def)

lemma update_store_ok:
  assumes "store_ok fs s"
  shows "store_ok (snd (update_lead_status fs scope_id status_id status_name now w)) s"
proof (cases "s = scope_id")
  case False
  then have "load_lead_statuses (snd (update_lead_status fs scope_id status_id status_name now w)) s
      = load_lead_statuses fs s"
    by (simp add: load_cases update_other_file)
  then show ?thesis using assms by (simp add: store_ok_def)
next
  case True
  from assms True obtain m where m: "load_lead_statuses fs scope_id = Inr m" "records_ok m"
    by (auto simp: store_ok_def split: sum.splits)
  from set_status_ok [OF m(2), of "py_str status_id" status_name now]
  obtain kvs' where k: "set_status m (py_str status_id) status_name now = Inr (JObj kvs')"
    "records_ok (JObj kvs')" by blast
  have e: "records_ok (JObj [])" by (simp add: records_ok_def)
  show ?thesis using True m k e assms
    by (cases w) (simp_all add: update_cases save_files store_ok_def load_cases)
qed

lemmas store_defs = update_lead_status_def load_lead_statuses_def save_lead_statuses_def
  json_dump_file_def json_load_file_def os_path_exists_def set_status_def dict_has_def
  dict_get_def py_str_def str_int_def digits.simps get_status_name_def py_get_def
  get_status_file_path_eq Let_def

section \<open>Auxiliary facts: formatting and dispatch\<close>

lemma asc_Nil_iff [simp]: "asc s = [] \<longleftrightarrow> s = []"
  by (simp add: asc_def)

lemma py_strip_head:
  assumes "\<not> py_isspace c"
  shows "\<exists>t. py_strip (c # s) = c # t"
proof -
  have "dropWhile py_isspace (rev s @ [c]) = rev s @ [c]
        \<or> (\<exists>ys. dropWhile py_isspace (rev s @ [c]) = ys @ [c])"
    using assms by (simp add: dropWhile_append)
  then obtain ys where "dropWhile py_isspace (rev s @ [c]) = ys @ [c]"
    by blast
  then show ?thesis using assms
    by (simp add: py_strip_def)
qed

lemma kind_emoji_cases:
  "\<exists>c. kind_emoji k = [c] \<and> \<not> py_isspace c"
  by (cases k) (simp_all add: emoji_new_def emoji_success_def emoji_update_def py_isspace_def)

lemma lead_title_kind: "lead_title (kind_name k) = (kind_emoji k, snd (lead_title (kind_name k)))"
  by (cases k) (simp_all add: lead_title_def)

lemma lead_head_kind: "\<exists>t. lead_head lead (kind_name k) = kind_emoji k @ t"
proof -
  obtain title where "lead_title (kind_name k) = (kind_emoji k, title)"
    using lead_title_kind by blast
  then show ?thesis
    by (simp add: lead_head_def Let_def)
qed

lemma py_strip_kind: "\<exists>t. py_strip (kind_emoji k @ s) = kind_emoji k @ t"
proof -
  obtain c where "kind_emoji k = [c]" "\<not> py_isspace c"
    using kind_emoji_cases by blast
  then show ?thesis using py_strip_head [of c s] by simp
qed

lemma format_lead_message_emoji:
  assumes "format_lead_message fs lead (kind_name k) scope_id now w = (Inr msg, fs')"
  shows "\<exists>t. msg = kind_emoji k @ t"
proof -
  obtain h where h: "lead_head lead (kind_name k) = kind_emoji k @ h"
    using lead_head_kind by blast
  from assms have "\<exists>s. msg = py_strip (kind_emoji k @ s)"
    by (auto simp: format_lead_message_def Let_def h split: if_splits prod.splits sum.splits)
  then show ?thesis using py_strip_kind by metis
qed

lemma process_lead_kind:
  "process_lead st (JObj lead) chat_id scope_id env =
     (case spec_lead_kind lead of
        None \<Rightarrow> (Inr (), st)
      | Some k \<Rightarrow> format_and_send st lead (kind_name k) chat_id scope_id env)"
  by (simp add: process_lead_def spec_lead_kind_def successful_status_ids_def)

lemma process_leads_single:
  "process_leads st [lead] chat_id scope_id env = process_lead st lead chat_id scope_id (env 0)"
  by (cases "process_lead st lead chat_id scope_id (env 0)") (auto split: sum.splits)

lemma update_returns:
  assumes "store_ok fs s"
  shows "\<exists>kvs r. fst (update_lead_status fs s i n now w) = Inr (JObj kvs)
           \<and> map_of kvs (py_str i) = Some (JObj r) \<and> map_of r (asc ''name'') = Some n"
proof -
  from assms obtain m where m: "load_lead_statuses fs s = Inr m" "records_ok m"
    by (auto simp: store_ok_def split: sum.splits)
  from set_status_ok [OF m(2), of "py_str i" n now] m(1) show ?thesis
    by (auto simp: update_cases)
qed

lemma py_str_142: "py_str (JInt 142) = asc ''142''"
  by (simp add: py_str_def str_int_def digits.simps asc_simps)

lemma won_lead_kind: "spec_lead_kind won_lead = Some KindSuccess"
  by (simp add: spec_lead_kind_def won_lead_def dict_has_def dict_get_def py_truthy_def py_str_142)

lemma won_strip:
  "py_strip (lead_head won_lead (asc ''success'') @ label_status @ py_str (JStr (asc ''Won'')) @ [10])
     = won_message"
  by (simp add: lead_head_def lead_title_def won_lead_def dict_has_def dict_get_def Let_def
      py_str_def won_message_def py_strip_def py_isspace_def emoji_success_def title_success_def
      label_name_def default_name_def label_status_def asc_simps)

lemma won_format:
  assumes "store_ok fs scope_id"
  shows "format_lead_message fs won_lead (asc ''success'') scope_id now w =
           (Inr won_message,
            snd (update_lead_status fs scope_id (JInt 142) (JStr (asc ''Won'')) now w))"
proof -
  obtain kvs where "fst (update_lead_status fs scope_id (JInt 142) (JStr (asc ''Won'')) now w)
      = Inr (JObj kvs)"
    using update_returns [OF assms] by blast
  then obtain fs' where u: "update_lead_status fs scope_id (JInt 142) (JStr (asc ''Won'')) now w
      = (Inr (JObj kvs), fs')"
    by (cases "update_lead_status fs scope_id (JInt 142) (JStr (asc ''Won'')) now w") simp
  have sid: "dict_get won_lead (asc ''status_id'') JNull = JInt 142"
    and sn: "dict_get won_lead (asc ''status_name'') JNull = JStr (asc ''Won'')"
    and has: "dict_has won_lead (asc ''status_name'')"
    by (simp_all add: won_lead_def dict_get_def dict_has_def)
  have "lead_status_name fs won_lead scope_id (JInt 142) now w = (Inr (JStr (asc ''Won'')), fs')"
    by (simp add: lead_status_name_def sn has u Let_def py_truthy_def)
  then have "format_lead_message fs won_lead (asc ''success'') scope_id now w = (Inr won_message, fs')"
    using won_strip by (simp add: format_lead_message_def sid Let_def py_truthy_def)
  then show ?thesis using u by simp
qed

lemma won_process:
  assumes "store_ok fs scope_id" and "env_send_ok env"
  shows "process_lead (fs, sent) (JObj won_lead) chat_id scope_id env =
           (Inr (), snd (update_lead_status fs scope_id (JInt 142) (JStr (asc ''Won''))
                           (env_now env) (env_write env)),
            sent @ [(chat_id, won_message)])"
  using assms
  by (simp add: process_lead_kind won_lead_kind format_and_send_def won_format send_message_def)

lemma dict_has_delete:
  "dict_has (AList.delete k d) k' = (k' \<noteq> k \<and> dict_has d k')"
  by (simp add: dict_has_def delete_conv')

lemma dict_get_delete:
  "dict_get (AList.delete k d) k' dflt = (if k' = k then dflt else dict_get d k' dflt)"
  by (simp add: dict_get_def delete_conv')

lemma lead_head_delete_status_id:
  "lead_head (AList.delete (asc ''status_id'') lead) event_type = lead_head lead event_type"
  by (simp add: lead_head_def dict_has_delete dict_get_delete Let_def cong: if_cong)

lemma format_falsy:
  assumes "\<not> py_truthy (dict_get lead (asc ''status_id'') JNull)"
  shows "format_lead_message fs lead event_type scope_id now w =
           (Inr (py_strip (lead_head lead event_type)), fs)"
  using assms by (simp add: format_lead_message_def Let_def)


lemma phone_line_simps [simp]:
  "is_phone_line (label_phone @ x)" "\<not> is_email_line (label_phone @ x)"
  "is_email_line (label_email @ x)" "\<not> is_phone_line (label_email @ x)"
  by (simp_all add: is_phone_line_def is_email_line_def label_phone_def label_email_def asc_simps)





lemmas lead_defs = lead_head_def lead_title_def dict_has_def dict_get_def Let_def
  py_str_def py_strip_def py_isspace_def py_truthy_def format_and_send_def send_message_def




text \<open>
  An id no call has written stays absent: a call for another scope, or for an id with
  another string, leaves the mapping loaded for the scope without an entry for it. And
  the formatter and the dispatcher keep every store well formed, since they write the
  data directory through \<open>update_lead_status\<close> only.
\<close>

lemma update_keeps_absent:
  assumes l: "load_lead_statuses fs s = Inr (JObj kvs)"
    and a: "\<not> dict_has kvs k"
    and o: "s' \<noteq> s \<or> py_str i \<noteq> k"
  shows "\<exists>kvs'. load_lead_statuses (snd (update_lead_status fs s' i n now w)) s = Inr (JObj kvs')
           \<and> \<not> dict_has kvs' k"
proof (cases "s' = s")
  case False
  then have "load_lead_statuses (snd (update_lead_status fs s' i n now w)) s
      = load_lead_statuses fs s"
    by (simp add: load_cases update_other_file)
  with l a show ?thesis by simp
next
  case True
  with o have k: "py_str i \<noteq> k" by simp
  show ?thesis
  proof (cases "set_status (JObj kvs) (py_str i) n now")
    case (Inl e)
    with l a True show ?thesis by (simp add: update_cases)
  next
    case (Inr m)
    then obtain kvs' where m: "m = JObj kvs'" and d: "\<not> dict_has kvs' k"
      using a k
      by (auto simp: set_status_def dict_has_def update_conv' split: if_splits json.splits)
    have e: "\<not> dict_has [] k" by (simp add: dict_has_def)
    show ?thesis using l a True Inr m d e
      by (cases w) (simp_all add: update_cases save_files load_cases)
  qed
qed

lemma lead_status_name_files:
  "snd (lead_status_name fs lead scope_id status_id now w) = fs
   \<or> snd (lead_status_name fs lead scope_id status_id now w)
       = snd (update_lead_status fs scope_id status_id (dict_get lead (asc ''status_name'') JNull) now w)"
  by (auto simp: lead_status_name_def Let_def split: prod.splits sum.splits)

lemma format_lead_message_files:
  "snd (format_lead_message fs lead event_type scope_id now w) = fs
   \<or> snd (format_lead_message fs lead event_type scope_id now w)
       = snd (update_lead_status fs scope_id (dict_get lead (asc ''status_id'') JNull)
               (dict_get lead (asc ''status_name'') JNull) now w)"
  using lead_status_name_files [of fs lead scope_id "dict_get lead (asc ''status_id'') JNull" now w]
  by (auto simp: format_lead_message_def Let_def split: prod.splits sum.splits)

lemma format_lead_message_store_ok:
  "store_ok fs s \<Longrightarrow> store_ok (snd (format_lead_message fs lead event_type scope_id now w)) s"
  using format_lead_message_files [of fs lead event_type scope_id now w]
  by (auto simp: update_store_ok)

lemma format_and_send_store_ok:
  "store_ok (fst st) s \<Longrightarrow>
   store_ok (fst (snd (format_and_send st lead event_type chat_id scope_id env))) s"
  using format_lead_message_store_ok [of "fst st" s lead event_type scope_id "env_now env" "env_write env"]
  by (auto simp: format_and_send_def split: prod.splits sum.splits)

lemma process_lead_store_ok:
  "store_ok (fst st) s \<Longrightarrow> store_ok (fst (snd (process_lead st lead chat_id scope_id env))) s"
  by (cases lead) (simp_all add: process_lead_def format_and_send_store_ok)

lemma process_leads_store_ok:
  "store_ok (fst st) s \<Longrightarrow> store_ok (fst (snd (process_leads st leads chat_id scope_id env))) s"
proof (induction leads arbitrary: st env)
  case Nil
  then show ?case by simp
next
  case (Cons lead leads)
  obtain r st' where p: "process_lead st lead chat_id scope_id (env 0) = (r, st')"
    by (cases "process_lead st lead chat_id scope_id (env 0)")
  with Cons.prems have ok: "store_ok (fst st') s"
    using process_lead_store_ok [of st s lead chat_id scope_id "env 0"] by simp
  show ?case
  proof (cases r)
    case (Inl e)
    with p ok show ?thesis by simp
  next
    case (Inr u)
    with p Cons.IH [OF ok] show ?thesis by simp
  qed
qed

section \<open>Theorems: the status store\<close>




text \<open>
  C2, as amended. When the mapping \<open>load_lead_statuses\<close> returns for the scope has no entry
  under \<^verbatim>\<open>str(status_id)\<close>, \<open>get_status_name\<close> returns the fallback: the Russian word for
  status, a space, and \<^verbatim>\<open>str(status_id)\<close>. The function reads the data directory and
  returns a value only, so a repeated call returns the same.
\<close>

theorem get_name_fallback:
  assumes "load_lead_statuses fs scope_id = Inr (JObj kvs)"
    and "\<not> dict_has kvs (py_str status_id)"
  shows "get_status_name fs scope_id status_id =
           Inr (JStr (status_fallback_prefix @ py_str status_id))"
  using assms
  by (simp add: get_status_name_def py_get_def dict_get_def dict_has_def)

theorem get_name_fallback_witness:
  "load_lead_statuses
      (no_files(get_status_file_path (asc ''42'') \<mapsto>
         Doc (JObj [(asc ''7'', JObj [(asc ''name'', JStr (asc ''Won''))])]))) (asc ''42'')
     = Inr (JObj [(asc ''7'', JObj [(asc ''name'', JStr (asc ''Won''))])])
   \<and> \<not> dict_has [(asc ''7'', JObj [(asc ''name'', JStr (asc ''Won''))])] (py_str (JInt 5))
   \<and> get_status_name
        (no_files(get_status_file_path (asc ''42'') \<mapsto>
           Doc (JObj [(asc ''7'', JObj [(asc ''name'', JStr (asc ''Won''))])]))) (asc ''42'') (JInt 5)
     = Inr (JStr (status_fallback_prefix @ asc ''5''))"
  using get_name_fallback [of
      "no_files(get_status_file_path (asc ''42'') \<mapsto>
         Doc (JObj [(asc ''7'', JObj [(asc ''name'', JStr (asc ''Won''))])]))"
      "asc ''42''" "[(asc ''7'', JObj [(asc ''name'', JStr (asc ''Won''))])]" "JInt 5"]
  by (simp add: load_cases dict_has_def py_str_def str_int_def digits.simps asc_simps)

text \<open>The fallback is in Russian: it is not the English \<^verbatim>\<open>"Status 5"\<close>.\<close>

theorem get_name_counterexample:
  "get_status_name no_files (asc ''42'') (JInt 5)
     = Inr (JStr [0x421, 0x442, 0x430, 0x442, 0x443, 0x441, 0x20, 0x35])
   \<and> get_status_name no_files (asc ''42'') (JInt 5) \<noteq> Inr (JStr (asc ''Status 5''))"
  by (simp add: no_files_def store_defs status_fallback_prefix_def asc_simps)

text \<open>
  C3. For two distinct scopes, \<open>update_lead_status\<close> on the first leaves the file of the
  second as it was, whatever the write does: \<open>load_lead_statuses\<close> and \<open>get_status_name\<close>
  on the second scope return what they returned before (the fallback, if they did).
\<close>

theorem scopes_isolated:
  assumes "a \<noteq> b"
  shows "snd (update_lead_status fs a status_id status_name now w) (get_status_file_path b)
           = fs (get_status_file_path b)
         \<and> load_lead_statuses (snd (update_lead_status fs a status_id status_name now w)) b
           = load_lead_statuses fs b
         \<and> get_status_name (snd (update_lead_status fs a status_id status_name now w)) b i
           = get_status_name fs b i"
proof -
  have f: "snd (update_lead_status fs a status_id status_name now w) (get_status_file_path b)
           = fs (get_status_file_path b)"
    using assms by (rule update_other_file)
  then have "load_lead_statuses (snd (update_lead_status fs a status_id status_name now w)) b
           = load_lead_statuses fs b"
    by (simp add: load_cases)
  then show ?thesis using f by (simp add: get_status_name_def)
qed

theorem scopes_isolated_witness:
  "asc ''A'' \<noteq> asc ''B''
   \<and> load_lead_statuses
        (snd (update_lead_status no_files (asc ''A'') (JInt 7) (JStr (asc ''X'')) time_a WriteOk))
        (asc ''B'')
     = Inr (JObj [])
   \<and> get_status_name
        (snd (update_lead_status no_files (asc ''A'') (JInt 7) (JStr (asc ''X'')) time_a WriteOk))
        (asc ''B'') (JInt 7)
     = Inr (JStr (status_fallback_prefix @ asc ''7''))"
proof -
  have ne: "asc ''A'' \<noteq> asc ''B''" by simp
  show ?thesis
    using ne scopes_isolated [OF ne, of no_files "JInt 7" "JStr (asc ''X'')" time_a WriteOk "JInt 7"]
    by (simp add: no_files_def store_defs asc_simps)
qed



text \<open>
  C7. For every scope, \<open>load_lead_statuses\<close> never raises: it returns a value whatever the
  data directory holds, and the empty mapping when the scope's file does not exist, holds
  content that is not JSON, or cannot be read.
\<close>

theorem load_never_raises:
  "(\<exists>v. load_lead_statuses fs scope_id = Inr v)
   \<and> (fs (get_status_file_path scope_id) \<in> {None, Some Corrupt, Some Unreadable}
        \<longrightarrow> load_lead_statuses fs scope_id = Inr (JObj []))"
  by (auto simp: load_lead_statuses_def Let_def os_path_exists_def json_load_file_def
           split: option.splits file_state.splits)

theorem load_never_raises_witness:
  "load_lead_statuses (no_files(get_status_file_path (asc ''42'') \<mapsto> Corrupt)) (asc ''42'')
     = Inr (JObj [])
   \<and> load_lead_statuses no_files (asc ''42'') = Inr (JObj [])
   \<and> load_lead_statuses (no_files(get_status_file_path (asc ''42'') \<mapsto> Unreadable)) (asc ''42'')
     = Inr (JObj [])"
  using load_never_raises [of "no_files(get_status_file_path (asc ''42'') \<mapsto> Corrupt)" "asc ''42''"]
    load_never_raises [of no_files "asc ''42''"]
    load_never_raises [of "no_files(get_status_file_path (asc ''42'') \<mapsto> Unreadable)" "asc ''42''"]
  by (simp add: no_files_def)

text \<open>
  C8, as amended. On a well-formed store \<open>update_lead_status\<close> never raises, whatever the
  write does. It returns the loaded mapping with the entry of the id set: to a record of
  exactly \<open>name\<close> and \<open>first_seen\<close> when the id had no entry, and else to the record it
  had with \<open>name\<close> replaced and \<open>last_updated\<close> set. The mapping returned is the one
  returned when the write succeeds; only the file differs: it holds the mapping after a
  successful write, is as before when \<^verbatim>\<open>open\<close> fails, and is left broken when
  \<^verbatim>\<open>json.dump\<close> fails.
\<close>

theorem update_never_raises:
  assumes "store_ok fs scope_id"
  shows "\<exists>kvs m r'.
           load_lead_statuses fs scope_id = Inr (JObj kvs)
         \<and> fst (update_lead_status fs scope_id status_id status_name now w) = Inr (JObj m)
         \<and> (map_of kvs (py_str status_id) = None
               \<and> m = AList.update (py_str status_id)
                       (JObj [(asc ''name'', status_name), (asc ''first_seen'', JStr now)]) kvs
             \<or> (\<exists>r. map_of kvs (py_str status_id) = Some (JObj r)
                   \<and> m = AList.update (py_str status_id)
                           (JObj (AList.update (asc ''last_updated'') (JStr now)
                                    (AList.update (asc ''name'') status_name r))) kvs))
         \<and> map_of m (py_str status_id) = Some (JObj r')
         \<and> map_of r' (asc ''name'') = Some status_name
         \<and> fst (update_lead_status fs scope_id status_id status_name now WriteOk) = Inr (JObj m)
         \<and> snd (update_lead_status fs scope_id status_id status_name now w)
             = (case w of
                  WriteOk \<Rightarrow> fs(get_status_file_path scope_id \<mapsto> Doc (JObj m))
                | OpenFails \<Rightarrow> fs
                | DumpFails \<Rightarrow> fs(get_status_file_path scope_id \<mapsto> Corrupt))"
proof -
  let ?k = "py_str status_id"
  from assms obtain v where v: "load_lead_statuses fs scope_id = Inr v" "records_ok v"
    by (auto simp: store_ok_def split: sum.splits)
  then obtain kvs where kvs: "v = JObj kvs"
    by (cases v) (simp_all add: records_ok_def)
  show ?thesis
  proof (cases "map_of kvs ?k")
    case None
    let ?m = "AList.update ?k (JObj [(asc ''name'', status_name), (asc ''first_seen'', JStr now)]) kvs"
    have s: "set_status (JObj kvs) ?k status_name now = Inr (JObj ?m)"
      using None by (simp add: set_status_new dict_has_def)
    have u: "update_lead_status fs scope_id status_id status_name now x
        = (Inr (JObj ?m), snd (save_lead_statuses fs scope_id (JObj ?m) x))" for x
      using v(1) kvs s by (simp add: update_cases)
    have "map_of ?m ?k = Some (JObj [(asc ''name'', status_name), (asc ''first_seen'', JStr now)])"
      "map_of [(asc ''name'', status_name), (asc ''first_seen'', JStr now)] (asc ''name'')
         = Some status_name"
      by (simp_all add: update_conv')
    with None v(1) kvs show ?thesis
      by (simp add: u save_files)
  next
    case (Some old)
    with v(2) kvs obtain r where r: "old = JObj r"
      using records_ok_lookup by blast
    let ?r = "AList.update (asc ''last_updated'') (JStr now) (AList.update (asc ''name'') status_name r)"
    let ?m = "AList.update ?k (JObj ?r) kvs"
    have s: "set_status (JObj kvs) ?k status_name now = Inr (JObj ?m)"
      using Some r by (simp add: set_status_old)
    have u: "update_lead_status fs scope_id status_id status_name now x
        = (Inr (JObj ?m), snd (save_lead_statuses fs scope_id (JObj ?m) x))" for x
      using v(1) kvs s by (simp add: update_cases)
    have "map_of ?m ?k = Some (JObj ?r)" "map_of ?r (asc ''name'') = Some status_name"
      by (simp_all add: update_conv')
    with Some r v(1) kvs show ?thesis
      by (simp add: u save_files)
  qed
qed

theorem update_never_raises_witness:
  "store_ok old_store (asc ''42'')
   \<and> update_lead_status old_store (asc ''42'') (JInt 7) (JStr (asc ''Lost'')) time_b OpenFails
     = (Inr (JObj [(asc ''7'', JObj [(asc ''name'', JStr (asc ''Lost'')),
                                     (asc ''first_seen'', JStr time_a),
                                     (asc ''last_updated'', JStr time_b)])]),
        old_store)
   \<and> fst (update_lead_status old_store (asc ''42'') (JInt 8) (JStr (asc ''New'')) time_b DumpFails)
     = Inr (JObj [(asc ''7'', JObj [(asc ''name'', JStr (asc ''Won'')),
                                    (asc ''first_seen'', JStr time_a)]),
                  (asc ''8'', JObj [(asc ''name'', JStr (asc ''New'')),
                                    (asc ''first_seen'', JStr time_b)])])"
proof -
  have ok: "store_ok old_store (asc ''42'')"
    by (simp add: store_ok_def records_ok_def is_dict_def old_store_def load_cases)
  have l: "load_lead_statuses old_store (asc ''42'')
      = Inr (JObj [(asc ''7'', JObj [(asc ''name'', JStr (asc ''Won'')),
                                     (asc ''first_seen'', JStr time_a)])])"
    by (simp add: old_store_def load_cases)
  have k: "py_str (JInt 7) = asc ''7''" "py_str (JInt 8) = asc ''8''"
    by (simp_all add: py_str_def str_int_def digits.simps asc_simps)
  from update_never_raises [OF ok, of "JInt 7" "JStr (asc ''Lost'')" time_b OpenFails] l k
  have a: "update_lead_status old_store (asc ''42'') (JInt 7) (JStr (asc ''Lost'')) time_b OpenFails
     = (Inr (JObj [(asc ''7'', JObj [(asc ''name'', JStr (asc ''Lost'')),
                                     (asc ''first_seen'', JStr time_a),
                                     (asc ''last_updated'', JStr time_b)])]),
        old_store)"
    by (auto simp: prod_eq_iff)
  from update_never_raises [OF ok, of "JInt 8" "JStr (asc ''New'')" time_b DumpFails] l k
  have b: "fst (update_lead_status old_store (asc ''42'') (JInt 8) (JStr (asc ''New'')) time_b DumpFails)
     = Inr (JObj [(asc ''7'', JObj [(asc ''name'', JStr (asc ''Won'')),
                                    (asc ''first_seen'', JStr time_a)]),
                  (asc ''8'', JObj [(asc ''name'', JStr (asc ''New'')),
                                    (asc ''first_seen'', JStr time_b)])])"
    by auto
  show ?thesis using ok a b by simp
qed

text \<open>
  Without well-formedness the call can raise: on a store that holds a string under the
  id, the assignment \<^verbatim>\<open>statuses[status_id_str]["name"] = status_name\<close> raises \<^verbatim>\<open>TypeError\<close>,
  whether the write would succeed or fail, and the file stays as it was.
\<close>

theorem update_never_raises_counterexample:
  "update_lead_status bad_store (asc ''42'') (JInt 7) (JStr (asc ''Lost'')) time_b OpenFails
     = (Inl TypeError, bad_store)
   \<and> update_lead_status bad_store (asc ''42'') (JInt 7) (JStr (asc ''Lost'')) time_b WriteOk
     = (Inl TypeError, bad_store)
   \<and> load_lead_statuses bad_store (asc ''42'') = Inr (JObj [(asc ''7'', JStr (asc ''Won''))])"
proof -
  have l: "load_lead_statuses bad_store (asc ''42'') = Inr (JObj [(asc ''7'', JStr (asc ''Won''))])"
    by (simp add: bad_store_def load_cases)
  have s: "set_status (JObj [(asc ''7'', JStr (asc ''Won''))]) (py_str (JInt 7))
      (JStr (asc ''Lost'')) time_b = Inl TypeError"
    by (simp add: set_status_def dict_has_def dict_get_def py_str_def str_int_def digits.simps
        asc_simps)
  show ?thesis
    by (simp add: update_cases l s)
qed

text \<open>
  C9. When the loaded mapping has no entry for the id, the record \<open>update_lead_status\<close>
  returns for it has exactly the fields \<open>name\<close> and \<open>first_seen\<close>. And whenever the call
  returns a record for the id, that record has a \<open>last_updated\<close> field exactly when the id
  had an entry before the call.
\<close>

theorem first_update_record:
  assumes "load_lead_statuses fs scope_id = Inr (JObj kvs)"
  shows "(\<not> dict_has kvs (py_str status_id) \<longrightarrow>
           (\<exists>kvs'. fst (update_lead_status fs scope_id status_id status_name now w) = Inr (JObj kvs')
              \<and> map_of kvs' (py_str status_id) =
                  Some (JObj [(asc ''name'', status_name), (asc ''first_seen'', JStr now)])))
         \<and> (\<forall>kvs' r. fst (update_lead_status fs scope_id status_id status_name now w) = Inr (JObj kvs')
               \<and> map_of kvs' (py_str status_id) = Some (JObj r)
               \<longrightarrow> (dict_has r (asc ''last_updated'') \<longleftrightarrow> dict_has kvs (py_str status_id)))"
proof (cases "map_of kvs (py_str status_id)")
  case None
  then show ?thesis using assms
    by (auto simp: update_cases set_status_new dict_has_def update_conv')
next
  case (Some v)
  show ?thesis
  proof (cases v)
    case (JObj r0)
    then show ?thesis using assms Some
      by (auto simp: update_cases set_status_old dict_has_def update_conv')
  qed (use assms Some in \<open>simp_all add: update_cases set_status_def dict_has_def dict_get_def\<close>)
qed

theorem first_update_record_witness:
  "load_lead_statuses no_files (asc ''42'') = Inr (JObj [])
   \<and> \<not> dict_has [] (py_str (JInt 7))
   \<and> fst (update_lead_status no_files (asc ''42'') (JInt 7) (JStr (asc ''Won'')) time_a WriteOk)
     = Inr (JObj [(asc ''7'', JObj [(asc ''name'', JStr (asc ''Won'')),
                                    (asc ''first_seen'', JStr time_a)])])
   \<and> \<not> dict_has [(asc ''name'', JStr (asc ''Won'')), (asc ''first_seen'', JStr time_a)]
         (asc ''last_updated'')"
  using first_update_record [of no_files "asc ''42''" "[]" "JInt 7" "JStr (asc ''Won'')"
      time_a WriteOk]
  by (simp add: no_files_def store_defs asc_simps)

section \<open>Theorems: the lead dispatcher and the formatters\<close>

text \<open>
  C5, as amended. The loop body of \<open>process_leads\<close> decides the event kind as the
  specification words it (\<open>spec_lead_kind\<close>): "add" marker, new; else truthy status id,
  success when its string is "142" or "143" and update otherwise; else "update" marker,
  update; else nothing is sent and nothing changes. A message formatted for a kind starts
  with the kind's emoji. The lead \<^verbatim>\<open>{"status_id": 142, "status_name": "Won"}\<close>, on a
  well-formed store and when the message goes out, sends the party-popper message; the
  store holds a record "142" with the name "Won" afterwards when the write succeeds.
\<close>

theorem lead_kind_decision:
  "process_lead st (JObj lead) chat_id scope_id env =
     (case spec_lead_kind lead of
        None \<Rightarrow> (Inr (), st)
      | Some k \<Rightarrow> format_and_send st lead (kind_name k) chat_id scope_id env)
   \<and> process_leads st [JObj lead] chat_id scope_id (\<lambda>i. env) =
     (case spec_lead_kind lead of
        None \<Rightarrow> (Inr (), st)
      | Some k \<Rightarrow> format_and_send st lead (kind_name k) chat_id scope_id env)
   \<and> (\<forall>k msg fs'. format_lead_message fs lead (kind_name k) scope_id now w = (Inr msg, fs')
         \<longrightarrow> (\<exists>t. msg = kind_emoji k @ t))
   \<and> (store_ok fs scope_id \<and> env_send_ok env \<longrightarrow>
         fst (process_lead (fs, sent) (JObj won_lead) chat_id scope_id env) = Inr ()
       \<and> snd (snd (process_lead (fs, sent) (JObj won_lead) chat_id scope_id env))
           = sent @ [(chat_id, won_message)]
       \<and> (\<exists>t. won_message = emoji_success @ t)
       \<and> (env_write env = WriteOk \<longrightarrow>
            (\<exists>kvs r. load_lead_statuses
                        (fst (snd (process_lead (fs, sent) (JObj won_lead) chat_id scope_id env)))
                        scope_id = Inr (JObj kvs)
                    \<and> map_of kvs (asc ''142'') = Some (JObj r)
                    \<and> map_of r (asc ''name'') = Some (JStr (asc ''Won'')))))"
proof (intro conjI allI impI)
  show "process_lead st (JObj lead) chat_id scope_id env =
     (case spec_lead_kind lead of
        None \<Rightarrow> (Inr (), st)
      | Some k \<Rightarrow> format_and_send st lead (kind_name k) chat_id scope_id env)"
    by (rule process_lead_kind)
next
  show "process_leads st [JObj lead] chat_id scope_id (\<lambda>i. env) =
     (case spec_lead_kind lead of
        None \<Rightarrow> (Inr (), st)
      | Some k \<Rightarrow> format_and_send st lead (kind_name k) chat_id scope_id env)"
    by (simp only: process_leads_single process_lead_kind)
next
  fix k msg fs'
  assume "format_lead_message fs lead (kind_name k) scope_id now w = (Inr msg, fs')"
  then show "\<exists>t. msg = kind_emoji k @ t"
    by (rule format_lead_message_emoji)
next
  assume a: "store_ok fs scope_id \<and> env_send_ok env"
  then have p: "process_lead (fs, sent) (JObj won_lead) chat_id scope_id env =
           (Inr (), snd (update_lead_status fs scope_id (JInt 142) (JStr (asc ''Won''))
                           (env_now env) (env_write env)),
            sent @ [(chat_id, won_message)])"
    by (simp add: won_process)
  show "fst (process_lead (fs, sent) (JObj won_lead) chat_id scope_id env) = Inr ()"
    and "snd (snd (process_lead (fs, sent) (JObj won_lead) chat_id scope_id env))
           = sent @ [(chat_id, won_message)]"
    by (simp_all add: p)
  show "\<exists>t. won_message = emoji_success @ t"
    by (simp add: won_message_def)
  assume wr: "env_write env = WriteOk"
  from a obtain kvs r where u: "fst (update_lead_status fs scope_id (JInt 142) (JStr (asc ''Won''))
      (env_now env) WriteOk) = Inr (JObj kvs)"
    "map_of kvs (py_str (JInt 142)) = Some (JObj r)" "map_of r (asc ''name'') = Some (JStr (asc ''Won''))"
    using update_returns by blast
  from u(1) have "load_lead_statuses (snd (update_lead_status fs scope_id (JInt 142)
      (JStr (asc ''Won'')) (env_now env) WriteOk)) scope_id = Inr (JObj kvs)"
    by (rule update_ok_load)
  with u(2,3) show "\<exists>kvs r. load_lead_statuses
                        (fst (snd (process_lead (fs, sent) (JObj won_lead) chat_id scope_id env)))
                        scope_id = Inr (JObj kvs)
                    \<and> map_of kvs (asc ''142'') = Some (JObj r)
                    \<and> map_of r (asc ''name'') = Some (JStr (asc ''Won''))"
    by (simp add: p wr py_str_142)
qed

theorem lead_kind_decision_witness:
  "store_ok no_files (asc ''42'')
   \<and> env_send_ok env_ok
   \<and> env_write env_ok = WriteOk
   \<and> spec_lead_kind won_lead = Some KindSuccess
   \<and> fst (process_lead (no_files, []) (JObj won_lead) (asc ''chat'') (asc ''42'') env_ok) = Inr ()
   \<and> snd (snd (process_lead (no_files, []) (JObj won_lead) (asc ''chat'') (asc ''42'') env_ok))
       = [(asc ''chat'', won_message)]
   \<and> load_lead_statuses
        (fst (snd (process_lead (no_files, []) (JObj won_lead) (asc ''chat'') (asc ''42'') env_ok)))
        (asc ''42'')
       = Inr (JObj [(asc ''142'', JObj [(asc ''name'', JStr (asc ''Won'')),
                                      (asc ''first_seen'', JStr time_a)])])"
proof -
  let ?p = "process_lead (no_files, []) (JObj won_lead) (asc ''chat'') (asc ''42'') env_ok"
  have h: "store_ok no_files (asc ''42'') \<and> env_send_ok env_ok"
    by (simp add: store_ok_empty no_files_def env_ok_def)
  have w: "env_write env_ok = WriteOk"
    by (simp add: env_ok_def)
  have k: "spec_lead_kind won_lead = Some KindSuccess"
    by (rule won_lead_kind)
  from lead_kind_decision [of "(no_files, [])" won_lead "asc ''chat''" "asc ''42''" env_ok
      no_files time_a WriteOk "[]"] h
  have a: "fst ?p = Inr ()" and b: "snd (snd ?p) = [] @ [(asc ''chat'', won_message)]"
    by blast+
  have "fst (snd ?p) = snd (update_lead_status no_files (asc ''42'') (JInt 142)
      (JStr (asc ''Won'')) time_a WriteOk)"
    using h by (simp add: won_process env_ok_def)
  then have c: "load_lead_statuses (fst (snd ?p)) (asc ''42'')
       = Inr (JObj [(asc ''142'', JObj [(asc ''name'', JStr (asc ''Won'')),
                                      (asc ''first_seen'', JStr time_a)])])"
    by (simp add: no_files_def store_defs asc_simps)
  show ?thesis using h w k a b c by simp
qed

text \<open>
  When the write fails the message is sent all the same, and the store holds no record:
  the record is not written into the scope's store then.
\<close>

theorem lead_kind_decision_counterexample:
  "snd (snd (process_lead (no_files, []) (JObj won_lead) (asc ''chat'') (asc ''42'') env_open_fails))
       = [(asc ''chat'', won_message)]
   \<and> load_lead_statuses
        (fst (snd (process_lead (no_files, []) (JObj won_lead) (asc ''chat'') (asc ''42'')
                     env_open_fails)))
        (asc ''42'')
       = Inr (JObj [])"
proof -
  let ?p = "process_lead (no_files, []) (JObj won_lead) (asc ''chat'') (asc ''42'') env_open_fails"
  have "store_ok no_files (asc ''42'')" "env_send_ok env_open_fails"
    by (simp_all add: store_ok_empty no_files_def env_open_fails_def)
  then have p: "?p = (Inr (), snd (update_lead_status no_files (asc ''42'') (JInt 142)
      (JStr (asc ''Won'')) time_a OpenFails), [(asc ''chat'', won_message)])"
    by (simp add: won_process env_open_fails_def)
  have "load_lead_statuses (snd (update_lead_status no_files (asc ''42'') (JInt 142)
      (JStr (asc ''Won'')) time_a OpenFails)) (asc ''42'') = Inr (JObj [])"
    by (simp add: no_files_def store_defs asc_simps)
  then show ?thesis by (simp add: p)
qed




text \<open>
  C10. A lead whose status id is falsy (absent, \<^verbatim>\<open>None\<close>, \<^verbatim>\<open>0\<close>, the empty string, ...) is
  processed exactly as the same lead without the \<open>status_id\<close> key: the kind is new with
  an "add" marker, else update with an "update" marker, else nothing is sent. Whatever
  the kind, its message is the stripped head alone (title, name, budget, responsible
  user: no status line), the data directory is returned as it was, and the message is
  the same for any content of the data directory.
\<close>

theorem falsy_status_id:
  assumes falsy: "\<not> py_truthy (dict_get lead (asc ''status_id'') JNull)"
  shows "process_lead st (JObj lead) chat_id scope_id env
           = process_lead st (JObj (AList.delete (asc ''status_id'') lead)) chat_id scope_id env
       \<and> process_lead st (JObj lead) chat_id scope_id env
           = (if dict_has lead (asc ''add'') then
                format_and_send st lead (asc ''new'') chat_id scope_id env
              else if dict_has lead (asc ''update'') then
                format_and_send st lead (asc ''update'') chat_id scope_id env
              else (Inr (), st))
       \<and> format_lead_message fs lead event_type scope_id now w
           = (Inr (py_strip (lead_head lead event_type)), fs)
       \<and> fst (format_lead_message fs lead event_type scope_id now w)
           = fst (format_lead_message fs2 lead event_type scope_id now2 w2)"
proof -
  let ?lead' = "AList.delete (asc ''status_id'') lead"
  have f: "format_lead_message g lead e scope_id n v = (Inr (py_strip (lead_head lead e)), g)"
    for g e n v
    using falsy by (rule format_falsy)
  have "\<not> py_truthy (dict_get ?lead' (asc ''status_id'') JNull)"
    by (simp add: dict_get_delete py_truthy_def)
  then have f': "format_lead_message g ?lead' e scope_id n v = (Inr (py_strip (lead_head lead e)), g)"
    for g e n v
    by (simp add: format_falsy lead_head_delete_status_id)
  have "format_and_send st ?lead' e chat_id scope_id env = format_and_send st lead e chat_id scope_id env"
    for e
    by (simp add: format_and_send_def f f')
  then have "process_lead st (JObj lead) chat_id scope_id env
           = process_lead st (JObj ?lead') chat_id scope_id env"
    using falsy by (simp add: process_lead_def dict_has_delete dict_get_delete py_truthy_def)
  moreover have "process_lead st (JObj lead) chat_id scope_id env
           = (if dict_has lead (asc ''add'') then
                format_and_send st lead (asc ''new'') chat_id scope_id env
              else if dict_has lead (asc ''update'') then
                format_and_send st lead (asc ''update'') chat_id scope_id env
              else (Inr (), st))"
    using falsy by (simp add: process_lead_def)
  ultimately show ?thesis by (simp add: f)
qed

theorem falsy_status_id_witness:
  "\<not> py_truthy (dict_get [(asc ''status_id'', JInt 0), (asc ''name'', JStr (asc ''Deal1''))]
                   (asc ''status_id'') JNull)
   \<and> process_lead (no_files, [])
        (JObj [(asc ''status_id'', JInt 0), (asc ''name'', JStr (asc ''Deal1''))])
        (asc ''chat'') (asc ''42'') env_ok
       = (Inr (), no_files, [])
   \<and> format_lead_message no_files
        [(asc ''status_id'', JInt 0), (asc ''name'', JStr (asc ''Deal1''))]
        (asc ''update'') (asc ''42'') time_a WriteOk
       = (Inr (emoji_update @ asc '' <b>'' @ title_update @ asc ''</b>'' @ [10]
                 @ label_name @ asc ''Deal1''), no_files)"
proof -
  let ?lead = "[(asc ''status_id'', JInt 0), (asc ''name'', JStr (asc ''Deal1''))]"
  have f: "\<not> py_truthy (dict_get ?lead (asc ''status_id'') JNull)"
    by (simp add: dict_get_def py_truthy_def)
  have m: "\<not> dict_has ?lead (asc ''add'')" "\<not> dict_has ?lead (asc ''update'')"
    by (simp_all add: dict_has_def)
  have s: "py_strip (lead_head ?lead (asc ''update''))
      = emoji_update @ asc '' <b>'' @ title_update @ asc ''</b>'' @ [10] @ label_name @ asc ''Deal1''"
    by (simp add: lead_defs emoji_update_def title_update_def label_name_def asc_simps)
  note t = falsy_status_id [OF f, of "(no_files, [])" "asc ''chat''" "asc ''42''" env_ok
      no_files "asc ''update''" time_a WriteOk no_files time_a WriteOk]
  from t [THEN conjunct2, THEN conjunct1] m
  have a: "process_lead (no_files, []) (JObj ?lead) (asc ''chat'') (asc ''42'') env_ok
      = (Inr (), no_files, [])"
    by simp
  from t [THEN conjunct2, THEN conjunct2, THEN conjunct1] s
  have b: "format_lead_message no_files ?lead (asc ''update'') (asc ''42'') time_a WriteOk
      = (Inr (emoji_update @ asc '' <b>'' @ title_update @ asc ''</b>'' @ [10]
                 @ label_name @ asc ''Deal1''), no_files)"
    by simp
  show ?thesis using f a b by simp
qed

end
